theory Spec2Isabelle
  imports Main "HOL-Library.Sublist"
begin

section \<open>The hero data-access service of angular-toh-graphql\<close>

text \<open>
  A shallow embedding of \<^verbatim>\<open>src/app/hero.service.ts\<close>. The service builds a request for
  the Apollo client, pipes the client's observable through \<^verbatim>\<open>map\<close>, \<^verbatim>\<open>tap\<close> and
  \<^verbatim>\<open>catchError\<close>, and writes diagnostics to a message service. The Apollo client is an
  external collaborator: it is a parameter of every operation (the gateway), so that
  the endpoint and the cache that \<^verbatim>\<open>src/app/graphql.module.ts\<close> configure stay outside.
\<close>

subsection \<open>JavaScript values\<close>

text \<open>
  The service declares its results as \<^verbatim>\<open>any\<close>: whatever the server sent. Values are JSON
  values plus \<^verbatim>\<open>undefined\<close>. Numbers are integers (the schema's \<^verbatim>\<open>Int\<close>); strings are
  lists of 8-bit characters; an object is an association list in which the first
  binding of a key is the one that is read.
\<close>

datatype jsval =
    JUndefined
  | JNull
  | JBool bool
  | JNum int
  | JStr string
  | JArr "jsval list"
  | JObj "(string \<times> jsval) list"

text \<open>
  Errors are \<^verbatim>\<open>Error\<close> objects: the \<^verbatim>\<open>TypeError\<close> the runtime throws on a property read
  of \<^verbatim>\<open>undefined\<close> or \<^verbatim>\<open>null\<close>, and the \<^verbatim>\<open>ApolloError\<close> of the client's error channel.
  The service reads only their \<^verbatim>\<open>message\<close>.
\<close>

datatype js_error = JsError (message: string)

definition quote :: string where
  "quote = [CHR 0x27]"

text \<open>The text of the \<^verbatim>\<open>TypeError\<close> is the engine's; V8's wording is used here.\<close>

definition type_error :: "string \<Rightarrow> string \<Rightarrow> js_error" where
  "type_error base prop =
     JsError (''Cannot read property '' @ quote @ prop @ quote @ '' of '' @ base)"

text \<open>
  \<^verbatim>\<open>v.k\<close>: throws on \<^verbatim>\<open>undefined\<close> and \<^verbatim>\<open>null\<close>, reads the own property of an object,
  and is \<^verbatim>\<open>undefined\<close> for the keys the service reads on every other value.
\<close>

fun get_prop :: "jsval \<Rightarrow> string \<Rightarrow> js_error + jsval" where
  "get_prop JUndefined k = Inl (type_error ''undefined'' k)"
| "get_prop JNull k = Inl (type_error ''null'' k)"
| "get_prop (JObj kvs) k = (case map_of kvs k of None \<Rightarrow> Inr JUndefined | Some v \<Rightarrow> Inr v)"
| "get_prop v k = Inr JUndefined"

text \<open>\<^verbatim>\<open>v[0]\<close>: the first element of an array, the first character of a string.\<close>

fun get_first :: "jsval \<Rightarrow> js_error + jsval" where
  "get_first JUndefined = Inl (type_error ''undefined'' ''0'')"
| "get_first JNull = Inl (type_error ''null'' ''0'')"
| "get_first (JArr xs) = (case xs of [] \<Rightarrow> Inr JUndefined | x # _ \<Rightarrow> Inr x)"
| "get_first (JStr s) = (case s of [] \<Rightarrow> Inr JUndefined | c # _ \<Rightarrow> Inr (JStr [c]))"
| "get_first (JObj kvs) = (case map_of kvs ''0'' of None \<Rightarrow> Inr JUndefined | Some v \<Rightarrow> Inr v)"
| "get_first v = Inr JUndefined"

text \<open>The condition of \<^verbatim>\<open>h ? a : b\<close>.\<close>

fun truthy :: "jsval \<Rightarrow> bool" where
  "truthy JUndefined = False"
| "truthy JNull = False"
| "truthy (JBool b) = b"
| "truthy (JNum n) = (n \<noteq> 0)"
| "truthy (JStr s) = (s \<noteq> [])"
| "truthy v = True"

subsection \<open>Template literals\<close>

definition digit_char :: "nat \<Rightarrow> char" where
  "digit_char d = char_of (48 + d)"

fun string_of_nat :: "nat \<Rightarrow> string" where
  "string_of_nat n =
     (if n < 10 then [digit_char n] else string_of_nat (n div 10) @ [digit_char (n mod 10)])"

declare string_of_nat.simps [simp del]

definition string_of_int :: "int \<Rightarrow> string" where
  "string_of_int i = (if i < 0 then ''-'' @ string_of_nat (nat (- i)) else string_of_nat (nat i))"

fun join_comma :: "string list \<Rightarrow> string" where
  "join_comma [] = []"
| "join_comma [s] = s"
| "join_comma (s # t # ss) = s @ '','' @ join_comma (t # ss)"

text \<open>\<^verbatim>\<open>${v}\<close> inside a template literal; an array joins its elements with a comma.\<close>

fun to_string :: "jsval \<Rightarrow> string" where
  "to_string JUndefined = ''undefined''"
| "to_string JNull = ''null''"
| "to_string (JBool b) = (if b then ''true'' else ''false'')"
| "to_string (JNum n) = string_of_int n"
| "to_string (JStr s) = s"
| "to_string (JArr xs) =
     join_comma (map (\<lambda>x. if x = JUndefined \<or> x = JNull then [] else to_string x) xs)"
| "to_string (JObj kvs) = ''[object Object]''"

subsection \<open>\<^verbatim>\<open>String.prototype.trim\<close>\<close>

text \<open>
  The white space and line terminators of the language that fit in 8 bits:
  TAB, LF, VT, FF, CR, SP and NBSP.
\<close>

definition is_white_space :: "char \<Rightarrow> bool" where
  "is_white_space c = (of_char c \<in> {9, 10, 11, 12, 13, 32, 160 :: nat})"

definition trim :: "string \<Rightarrow> string" where
  "trim s = rev (dropWhile is_white_space (rev (dropWhile is_white_space s)))"

subsection \<open>Observables\<close>

text \<open>
  What one subscriber sees of an observable up to some moment: the values emitted so
  far, in order, and whether the stream has completed, has failed, or is still open
  (\<^verbatim>\<open>valueChanges\<close> of a watched query stays open).
\<close>

datatype closing = StillOpen | Completed | Errored js_error

record 'a observable =
  emitted :: "'a list"
  closing :: closing

definition rx_of :: "'a \<Rightarrow> 'a observable" where
  "rx_of v = \<lparr>emitted = [v], closing = Completed\<rparr>"

text \<open>
  \<^verbatim>\<open>map(f)\<close>: the projection runs on each value; the first value on which it throws
  ends the stream with that error, and the source is unsubscribed.
\<close>

fun map_values :: "('a \<Rightarrow> js_error + 'b) \<Rightarrow> 'a list \<Rightarrow> 'b list \<times> js_error option" where
  "map_values f [] = ([], None)"
| "map_values f (x # xs) =
     (case f x of
        Inl e \<Rightarrow> ([], Some e)
      | Inr y \<Rightarrow> (case map_values f xs of (ys, r) \<Rightarrow> (y # ys, r)))"

definition rx_map :: "('a \<Rightarrow> js_error + 'b) \<Rightarrow> 'a observable \<Rightarrow> 'b observable" where
  "rx_map f src =
     (case map_values f (emitted src) of
        (ys, Some e) \<Rightarrow> \<lparr>emitted = ys, closing = Errored e\<rparr>
      | (ys, None) \<Rightarrow> \<lparr>emitted = ys, closing = closing src\<rparr>)"

subsection \<open>The world outside the service\<close>

text \<open>
  The six documents of the service, as the \<^verbatim>\<open>gql\<close> literals write them. A document that
  shares its name with a method of the service carries the suffix \<open>_gql\<close>.
\<close>

datatype operation_type = Query | Mutation

record gql_document =
  operation_type :: operation_type
  operation_name :: string
  variable_definitions :: "(string \<times> string) list"
  field :: string
  arguments :: "(string \<times> string) list"
  selection :: "string list"

definition heroesQuery :: gql_document where
  "heroesQuery = \<lparr>operation_type = Query, operation_name = ''heroesQuery'',
     variable_definitions = [], field = ''heroes'', arguments = [],
     selection = [''id'', ''name'']\<rparr>"

definition heroQuery :: gql_document where
  "heroQuery = \<lparr>operation_type = Query, operation_name = ''heroQuery'',
     variable_definitions = [(''id'', ''Int!'')], field = ''hero'',
     arguments = [(''id'', ''id'')], selection = [''id'', ''name'']\<rparr>"

definition searchQuery :: gql_document where
  "searchQuery = \<lparr>operation_type = Query, operation_name = ''searchQuery'',
     variable_definitions = [(''q'', ''String'')], field = ''search'',
     arguments = [(''q'', ''q'')], selection = [''id'', ''name'']\<rparr>"

definition addHero_gql :: gql_document where
  "addHero_gql = \<lparr>operation_type = Mutation, operation_name = ''addHero'',
     variable_definitions = [(''input'', ''HeroInput'')], field = ''addHero'',
     arguments = [(''input'', ''input'')], selection = [''id'', ''name'']\<rparr>"

definition deleteHero_gql :: gql_document where
  "deleteHero_gql = \<lparr>operation_type = Mutation, operation_name = ''deleteHero'',
     variable_definitions = [(''id'', ''Int!'')], field = ''deleteHero'',
     arguments = [(''id'', ''id'')], selection = []\<rparr>"

definition updateHero_gql :: gql_document where
  "updateHero_gql = \<lparr>operation_type = Mutation, operation_name = ''updateHero'',
     variable_definitions = [(''id'', ''Int!''), (''input'', ''HeroInput'')],
     field = ''updateHero'', arguments = [(''id'', ''id''), (''input'', ''input'')],
     selection = [''id'', ''name'']\<rparr>"

text \<open>
  The options object handed to the client, tagged with the method that received it.
  \<^verbatim>\<open>variables\<close> is optional: \<open>None\<close> when the object literal has no such key.
\<close>

datatype apollo_method = WatchQuery | Mutate

record request =
  client_method :: apollo_method
  document :: gql_document
  variables :: "(string \<times> jsval) list option"

text \<open>The result object of the client; the service reads only its \<^verbatim>\<open>data\<close>.\<close>

record envelope =
  data :: jsval

text \<open>
  The Apollo client: for each request, what the subscriber of the returned observable
  sees. A failed call surfaces on the error channel of that observable.
\<close>

type_synonym gateway = "request \<Rightarrow> envelope observable"

text \<open>
  Modelled from the spec: \<^verbatim>\<open>hero.ts\<close> is not among the sources; the specification gives
  the record as \<^verbatim>\<open>{ id: integer, name: string }\<close>. The field \<^verbatim>\<open>id\<close> is \<open>hero_id\<close> here.
\<close>

record Hero =
  hero_id :: int
  name :: string

text \<open>
  Everything the service changes: the messages handed to the message service, the
  requests handed to the client, and the errors printed with \<^verbatim>\<open>console.error\<close>.
\<close>

record world =
  messages :: "string list"
  requests :: "request list"
  console :: "js_error list"

text \<open>
  Modelled from the spec: \<^verbatim>\<open>message.service.ts\<close> is not among the sources; the
  specification gives the sink one capability, recording a message, with no result.
\<close>

definition messageService_add :: "string \<Rightarrow> world \<Rightarrow> world" where
  "messageService_add m w = w\<lparr>messages := messages w @ [m]\<rparr>"

definition watchQuery ::
  "gateway \<Rightarrow> gql_document \<Rightarrow> (string \<times> jsval) list option \<Rightarrow> world
     \<Rightarrow> envelope observable \<times> world" where
  "watchQuery g q vars w =
     (let d = \<lparr>client_method = WatchQuery, document = q, variables = vars\<rparr>
      in (g d, w\<lparr>requests := requests w @ [d]\<rparr>))"

definition mutate ::
  "gateway \<Rightarrow> gql_document \<Rightarrow> (string \<times> jsval) list option \<Rightarrow> world
     \<Rightarrow> envelope observable \<times> world" where
  "mutate g m vars w =
     (let d = \<lparr>client_method = Mutate, document = m, variables = vars\<rparr>
      in (g d, w\<lparr>requests := requests w @ [d]\<rparr>))"

subsection \<open>Operators with effects\<close>

text \<open>
  \<^verbatim>\<open>tap(f)\<close>: the callback runs on each value and the value passes through; a callback
  that throws ends the stream with the error. The callbacks of the service throw, if at
  all, before they write a message.
\<close>

fun tap_values ::
  "('a \<Rightarrow> world \<Rightarrow> js_error + world) \<Rightarrow> 'a list \<Rightarrow> world
     \<Rightarrow> ('a list \<times> js_error option) \<times> world" where
  "tap_values f [] w = (([], None), w)"
| "tap_values f (x # xs) w =
     (case f x w of
        Inl e \<Rightarrow> (([], Some e), w)
      | Inr w1 \<Rightarrow> (case tap_values f xs w1 of ((ys, r), w2) \<Rightarrow> ((x # ys, r), w2)))"

definition rx_tap ::
  "('a \<Rightarrow> world \<Rightarrow> js_error + world) \<Rightarrow> 'a observable \<Rightarrow> world
     \<Rightarrow> 'a observable \<times> world" where
  "rx_tap f src w =
     (case tap_values f (emitted src) w of
        ((ys, Some e), w1) \<Rightarrow> (\<lparr>emitted = ys, closing = Errored e\<rparr>, w1)
      | ((ys, None), w1) \<Rightarrow> (\<lparr>emitted = ys, closing = closing src\<rparr>, w1))"

text \<open>
  \<^verbatim>\<open>catchError(h)\<close>: values pass through; when the source fails, the observable that the
  selector returns for the error takes over.
\<close>

definition rx_catchError ::
  "(js_error \<Rightarrow> world \<Rightarrow> 'a observable \<times> world) \<Rightarrow> 'a observable \<Rightarrow> world
     \<Rightarrow> 'a observable \<times> world" where
  "rx_catchError h src w =
     (case closing src of
        Errored e \<Rightarrow>
          (case h e w of
             (next, w1) \<Rightarrow> (\<lparr>emitted = emitted src @ emitted next, closing = closing next\<rparr>, w1))
      | _ \<Rightarrow> (src, w))"

text \<open>
  The three operators of a pipe act on one value after the other. Since the projection
  of \<^verbatim>\<open>map\<close> writes nothing and \<^verbatim>\<open>catchError\<close> acts only once the stream has failed,
  running the operators one after the other over the whole trace records the same
  messages in the same order.
\<close>

subsection \<open>The service\<close>

text \<open>
  Each method is modelled together with the one subscriber of the observable it
  returns: its result is what that subscriber sees and the world after the subscriber
  has seen it. \<^verbatim>\<open>watchQuery(...).valueChanges\<close> is the observable of \<open>watchQuery\<close>.
\<close>

definition log :: "string \<Rightarrow> world \<Rightarrow> world" where
  "log msg w = messageService_add (''HeroService: '' @ msg) w"

text \<open>
  \<^verbatim>\<open>handleError(operation = 'operation', result?)\<close>: both parameters are optional.
\<close>

definition handleError ::
  "string option \<Rightarrow> jsval option \<Rightarrow> js_error \<Rightarrow> world \<Rightarrow> jsval observable \<times> world" where
  "handleError operation result error w =
     (let operation1 = (case operation of None \<Rightarrow> ''operation'' | Some s \<Rightarrow> s);
          result1 = (case result of None \<Rightarrow> JUndefined | Some v \<Rightarrow> v);
          w1 = w\<lparr>console := console w @ [error]\<rparr>;
          w2 = log (operation1 @ '' failed: '' @ message error) w1
      in (rx_of result1, w2))"

text \<open>A property read on the result of another read: the first throw wins.\<close>

definition and_then :: "js_error + 'a \<Rightarrow> ('a \<Rightarrow> js_error + 'b) \<Rightarrow> js_error + 'b" where
  "and_then r f = (case r of Inl e \<Rightarrow> Inl e | Inr v \<Rightarrow> f v)"

definition dquote :: string where
  "dquote = [CHR 0x22]"

text \<open>GET heroes from the server.\<close>

definition getHeroes :: "gateway \<Rightarrow> world \<Rightarrow> jsval observable \<times> world" where
  "getHeroes g w =
     (let (src, w1) = watchQuery g heroesQuery None w;
          mapped = rx_map (\<lambda>result. get_prop (data result) ''heroes'') src;
          (tapped, w2) = rx_tap (\<lambda>heroes w. Inr (log ''fetched heroes'' w)) mapped w1
      in rx_catchError (handleError (Some ''getHeroes'') (Some (JArr []))) tapped w2)"

text \<open>GET hero by id. Return \<^verbatim>\<open>undefined\<close> when id not found.\<close>

definition getHeroNo404 :: "gateway \<Rightarrow> int \<Rightarrow> world \<Rightarrow> jsval observable \<times> world" where
  "getHeroNo404 g i w =
     (let (src, w1) = watchQuery g heroQuery None w;
          mapped = rx_map (\<lambda>result. and_then (get_prop (data result) ''heroes'') get_first) src;
          (tapped, w2) =
            rx_tap (\<lambda>h w.
                let outcome = (if truthy h then ''fetched'' else ''did not find'')
                in Inr (log (outcome @ '' hero id='' @ string_of_int i) w)) mapped w1
      in rx_catchError (handleError (Some (''getHero id='' @ string_of_int i)) None) tapped w2)"

text \<open>GET hero by id. Will 404 if id not found.\<close>

definition getHero :: "gateway \<Rightarrow> int \<Rightarrow> world \<Rightarrow> jsval observable \<times> world" where
  "getHero g i w =
     (let (src, w1) = watchQuery g heroQuery (Some [(''id'', JNum i)]) w;
          mapped = rx_map (\<lambda>result. get_prop (data result) ''hero'') src;
          (tapped, w2) =
            rx_tap (\<lambda>h w.
                let outcome = (if truthy h then ''fetched'' else ''did not find'')
                in Inr (log (outcome @ '' hero id='' @ string_of_int i) w)) mapped w1
      in rx_catchError (handleError (Some (''getHero id='' @ string_of_int i)) None) tapped w2)"

text \<open>GET heroes whose name contains search term.\<close>

definition searchHeroes :: "gateway \<Rightarrow> string \<Rightarrow> world \<Rightarrow> jsval observable \<times> world" where
  "searchHeroes g term w =
     (if trim term = [] then (rx_of (JArr []), w)
      else
        (let (src, w1) = watchQuery g searchQuery (Some [(''q'', JStr term)]) w;
             mapped = rx_map (\<lambda>result. get_prop (data result) ''search'') src;
             (tapped, w2) =
               rx_tap (\<lambda>_ w. Inr (log (''found heroes matching '' @ dquote @ term @ dquote) w))
                 mapped w1
         in rx_catchError (handleError (Some ''searchHeroes'') (Some (JArr []))) tapped w2))"

text \<open>POST: add a new hero to the server.\<close>

definition addHero :: "gateway \<Rightarrow> Hero \<Rightarrow> world \<Rightarrow> jsval observable \<times> world" where
  "addHero g hero w =
     (let (src, w1) =
            mutate g addHero_gql (Some [(''input'', JObj [(''name'', JStr (name hero))])]) w;
          mapped = rx_map (\<lambda>result. get_prop (data result) ''addHero'') src;
          (tapped, w2) =
            rx_tap (\<lambda>hero w.
                case get_prop hero ''id'' of
                  Inl e \<Rightarrow> Inl e
                | Inr v \<Rightarrow> Inr (log (''added hero w/ id='' @ to_string v) w)) mapped w1
      in rx_catchError (handleError (Some ''addHero'') None) tapped w2)"

text \<open>
  DELETE: delete the hero from the server. The parameter is a hero (\<open>Inl\<close>) or a
  number (\<open>Inr\<close>).
\<close>

definition deleteHero :: "gateway \<Rightarrow> Hero + int \<Rightarrow> world \<Rightarrow> jsval observable \<times> world" where
  "deleteHero g hero w =
     (let i = (case hero of Inr n \<Rightarrow> n | Inl h \<Rightarrow> hero_id h);
          (src, w1) = mutate g deleteHero_gql (Some [(''id'', JNum i)]) w;
          mapped = rx_map (\<lambda>result. get_prop (data result) ''deleteHero'') src;
          (tapped, w2) =
            rx_tap (\<lambda>_ w. Inr (log (''deleted hero id='' @ string_of_int i) w)) mapped w1
      in rx_catchError (handleError (Some ''deleteHero'') None) tapped w2)"

text \<open>PUT: update the hero on the server.\<close>

definition updateHero :: "gateway \<Rightarrow> Hero \<Rightarrow> world \<Rightarrow> jsval observable \<times> world" where
  "updateHero g hero w =
     (let (src, w1) =
            mutate g updateHero_gql
              (Some [(''id'', JNum (hero_id hero)),
                     (''input'', JObj [(''name'', JStr (name hero))])]) w;
          mapped = rx_map (\<lambda>result. get_prop (data result) ''updateHero'') src;
          (tapped, w2) =
            rx_tap (\<lambda>_ w. Inr (log (''updated hero id='' @ string_of_int (hero_id hero)) w))
              mapped w1
      in rx_catchError (handleError (Some ''addHero'') None) tapped w2)"

subsection \<open>One call of the service\<close>

text \<open>The seven public methods with their arguments, to speak about every operation.\<close>

datatype call =
    GetHeroes
  | GetHeroNo404 int
  | GetHero int
  | SearchHeroes string
  | AddHero Hero
  | DeleteHero "Hero + int"
  | UpdateHero Hero

fun invoke :: "gateway \<Rightarrow> call \<Rightarrow> world \<Rightarrow> jsval observable \<times> world" where
  "invoke g GetHeroes w = getHeroes g w"
| "invoke g (GetHeroNo404 i) w = getHeroNo404 g i w"
| "invoke g (GetHero i) w = getHero g i w"
| "invoke g (SearchHeroes term) w = searchHeroes g term w"
| "invoke g (AddHero hero) w = addHero g hero w"
| "invoke g (DeleteHero hero) w = deleteHero g hero w"
| "invoke g (UpdateHero hero) w = updateHero g hero w"

text \<open>The request each method hands to the client (a search only when its guard lets it).\<close>

fun request_of :: "call \<Rightarrow> request" where
  "request_of GetHeroes = \<lparr>client_method = WatchQuery, document = heroesQuery, variables = None\<rparr>"
| "request_of (GetHeroNo404 i) =
     \<lparr>client_method = WatchQuery, document = heroQuery, variables = None\<rparr>"
| "request_of (GetHero i) =
     \<lparr>client_method = WatchQuery, document = heroQuery, variables = Some [(''id'', JNum i)]\<rparr>"
| "request_of (SearchHeroes term) =
     \<lparr>client_method = WatchQuery, document = searchQuery, variables = Some [(''q'', JStr term)]\<rparr>"
| "request_of (AddHero hero) =
     \<lparr>client_method = Mutate, document = addHero_gql,
      variables = Some [(''input'', JObj [(''name'', JStr (name hero))])]\<rparr>"
| "request_of (DeleteHero hero) =
     \<lparr>client_method = Mutate, document = deleteHero_gql,
      variables = Some [(''id'', JNum (case hero of Inr n \<Rightarrow> n | Inl h \<Rightarrow> hero_id h))]\<rparr>"
| "request_of (UpdateHero hero) =
     \<lparr>client_method = Mutate, document = updateHero_gql,
      variables = Some [(''id'', JNum (hero_id hero)),
                        (''input'', JObj [(''name'', JStr (name hero))])]\<rparr>"

text \<open>The arrow function each method hands to \<^verbatim>\<open>map\<close>.\<close>

fun projection_of :: "call \<Rightarrow> envelope \<Rightarrow> js_error + jsval" where
  "projection_of GetHeroes = (\<lambda>result. get_prop (data result) ''heroes'')"
| "projection_of (GetHeroNo404 i) =
     (\<lambda>result. and_then (get_prop (data result) ''heroes'') get_first)"
| "projection_of (GetHero i) = (\<lambda>result. get_prop (data result) ''hero'')"
| "projection_of (SearchHeroes term) = (\<lambda>result. get_prop (data result) ''search'')"
| "projection_of (AddHero hero) = (\<lambda>result. get_prop (data result) ''addHero'')"
| "projection_of (DeleteHero hero) = (\<lambda>result. get_prop (data result) ''deleteHero'')"
| "projection_of (UpdateHero hero) = (\<lambda>result. get_prop (data result) ''updateHero'')"

text \<open>
  The default of each operation as the specification documents it: the empty sequence
  for the two operations that list heroes, \<^verbatim>\<open>undefined\<close> for the others.
\<close>

fun documented_default :: "call \<Rightarrow> jsval" where
  "documented_default GetHeroes = JArr []"
| "documented_default (SearchHeroes term) = JArr []"
| "documented_default c = JUndefined"

subsection \<open>Gateways and worlds for concrete runs\<close>

definition fresh_world :: world where
  "fresh_world = \<lparr>messages = [], requests = [], console = []\<rparr>"

text \<open>A gateway whose every call fails with the given message.\<close>

definition failing_gateway :: "string \<Rightarrow> gateway" where
  "failing_gateway msg d = \<lparr>emitted = [], closing = Errored (JsError msg)\<rparr>"

text \<open>A gateway that answers every call once, with the given \<^verbatim>\<open>data\<close>, and completes.\<close>

definition answering :: "jsval \<Rightarrow> gateway" where
  "answering payload d = rx_of \<lparr>data = payload\<rparr>"

text \<open>
  A gateway whose \<^verbatim>\<open>updateHero\<close> mutation echoes: to a \<^verbatim>\<open>mutate\<close> of the document
  \<^verbatim>\<open>updateHero\<close> it answers once with \<^verbatim>\<open>{ updateHero: {id, name} }\<close>, built from the
  \<^verbatim>\<open>id\<close> and the \<^verbatim>\<open>input.name\<close> it finds in the variables of the request. Every other
  request fails, and so does an update that lacks one of the two.
\<close>

definition echo_updateHero :: gateway where
  "echo_updateHero d =
     (if client_method d = Mutate \<and> document d = updateHero_gql then
        (case variables d of
           None \<Rightarrow> failing_gateway ''missing variables'' d
         | Some vars \<Rightarrow>
             (case (map_of vars ''id'', map_of vars ''input'') of
                (Some i, Some (JObj input)) \<Rightarrow>
                  (case map_of input ''name'' of
                     Some n \<Rightarrow>
                       answering (JObj [(''updateHero'', JObj [(''id'', i), (''name'', n)])]) d
                   | None \<Rightarrow> failing_gateway ''missing name'' d)
              | _ \<Rightarrow> failing_gateway ''missing variables'' d))
      else failing_gateway ''not an update'' d)"

text \<open>A hero as the value the service's caller holds.\<close>

definition js_of_hero :: "Hero \<Rightarrow> jsval" where
  "js_of_hero h = JObj [(''id'', JNum (hero_id h)), (''name'', JStr (name h))]"

subsection \<open>The vocabulary of the specification\<close>

text \<open>A value with a defined \<^verbatim>\<open>id\<close> and a defined \<^verbatim>\<open>name\<close>.\<close>

definition defined_prop :: "jsval \<Rightarrow> string \<Rightarrow> bool" where
  "defined_prop v k = (case get_prop v k of Inl e \<Rightarrow> False | Inr x \<Rightarrow> x \<noteq> JUndefined)"

definition full_record :: "jsval \<Rightarrow> bool" where
  "full_record v = (defined_prop v ''id'' \<and> defined_prop v ''name'')"

definition full_records :: "jsval \<Rightarrow> bool" where
  "full_records v = (case v of JArr hs \<Rightarrow> list_all full_record hs | _ \<Rightarrow> False)"

text \<open>
  What the specification's invariant lets a caller see: a full record, a sequence of
  full records (the empty one among them), or \<^verbatim>\<open>undefined\<close>.
\<close>

definition full_or_absent :: "jsval \<Rightarrow> bool" where
  "full_or_absent v = (full_record v \<or> full_records v \<or> v = JUndefined)"

text \<open>The acknowledgement of the delete mutation: a boolean or a number.\<close>

definition acknowledgement :: "jsval \<Rightarrow> bool" where
  "acknowledgement v = (case v of JBool b \<Rightarrow> True | JNum n \<Rightarrow> True | _ \<Rightarrow> False)"

fun is_delete :: "call \<Rightarrow> bool" where
  "is_delete (DeleteHero hero) = True"
| "is_delete c = False"

fun lists_heroes :: "call \<Rightarrow> bool" where
  "lists_heroes GetHeroes = True"
| "lists_heroes (SearchHeroes term) = True"
| "lists_heroes c = False"

text \<open>
  The wire shape the specification gives for each remote operation: \<^verbatim>\<open>data\<close> is an
  object with the one field of the document, which holds a sequence of full records for
  \<^verbatim>\<open>heroes\<close> and \<^verbatim>\<open>search\<close>, an acknowledgement for \<^verbatim>\<open>deleteHero\<close>, and a full record for
  the others.
\<close>

definition payload_shape :: "call \<Rightarrow> jsval \<Rightarrow> bool" where
  "payload_shape c v =
     (if lists_heroes c then full_records v
      else if is_delete c then acknowledgement v
      else full_record v)"

definition wire_shape :: "call \<Rightarrow> envelope \<Rightarrow> bool" where
  "wire_shape c r =
     (case data r of
        JObj [(k, v)] \<Rightarrow> k = field (document (request_of c)) \<and> payload_shape c v
      | _ \<Rightarrow> False)"

text \<open>What each operation lets a caller see when the gateway keeps to the wire shape.\<close>

definition exposed_shape :: "call \<Rightarrow> jsval \<Rightarrow> bool" where
  "exposed_shape c v =
     (if is_delete c then acknowledgement v \<or> v = JUndefined else full_or_absent v)"

subsection \<open>The common form of the seven pipes\<close>

text \<open>
  Every method pipes the observable of the client through \<^verbatim>\<open>map\<close>, \<^verbatim>\<open>tap\<close> and
  \<^verbatim>\<open>catchError(this.handleError(...))\<close>. The proofs below work on this common form;
  \<open>invoke_piped\<close> shows that each method is an instance of it.
\<close>

definition piped ::
  "(envelope \<Rightarrow> js_error + jsval) \<Rightarrow> (jsval \<Rightarrow> world \<Rightarrow> js_error + world) \<Rightarrow> string option
     \<Rightarrow> jsval option \<Rightarrow> envelope observable \<Rightarrow> world \<Rightarrow> jsval observable \<times> world" where
  "piped p t operation result src w =
     (let mapped = rx_map p src;
          (tapped, w2) = rx_tap t mapped w
      in rx_catchError (handleError operation result) tapped w2)"

text \<open>The arrow function each method hands to \<^verbatim>\<open>tap\<close>.\<close>

fun tap_of :: "call \<Rightarrow> jsval \<Rightarrow> world \<Rightarrow> js_error + world" where
  "tap_of GetHeroes = (\<lambda>heroes w. Inr (log ''fetched heroes'' w))"
| "tap_of (GetHeroNo404 i) =
     (\<lambda>h w.
        let outcome = (if truthy h then ''fetched'' else ''did not find'')
        in Inr (log (outcome @ '' hero id='' @ string_of_int i) w))"
| "tap_of (GetHero i) =
     (\<lambda>h w.
        let outcome = (if truthy h then ''fetched'' else ''did not find'')
        in Inr (log (outcome @ '' hero id='' @ string_of_int i) w))"
| "tap_of (SearchHeroes term) =
     (\<lambda>_ w. Inr (log (''found heroes matching '' @ dquote @ term @ dquote) w))"
| "tap_of (AddHero h) =
     (\<lambda>hero w.
        case get_prop hero ''id'' of
          Inl e \<Rightarrow> Inl e
        | Inr v \<Rightarrow> Inr (log (''added hero w/ id='' @ to_string v) w))"
| "tap_of (DeleteHero hero) =
     (\<lambda>_ w. Inr (log (''deleted hero id=''
                @ string_of_int (case hero of Inr n \<Rightarrow> n | Inl h \<Rightarrow> hero_id h)) w))"
| "tap_of (UpdateHero hero) =
     (\<lambda>_ w. Inr (log (''updated hero id='' @ string_of_int (hero_id hero)) w))"

text \<open>The two arguments each method hands to \<^verbatim>\<open>handleError\<close>.\<close>

fun recovery_operation :: "call \<Rightarrow> string option" where
  "recovery_operation GetHeroes = Some ''getHeroes''"
| "recovery_operation (GetHeroNo404 i) = Some (''getHero id='' @ string_of_int i)"
| "recovery_operation (GetHero i) = Some (''getHero id='' @ string_of_int i)"
| "recovery_operation (SearchHeroes term) = Some ''searchHeroes''"
| "recovery_operation (AddHero hero) = Some ''addHero''"
| "recovery_operation (DeleteHero hero) = Some ''deleteHero''"
| "recovery_operation (UpdateHero hero) = Some ''addHero''"

fun recovery_result :: "call \<Rightarrow> jsval option" where
  "recovery_result GetHeroes = Some (JArr [])"
| "recovery_result (SearchHeroes term) = Some (JArr [])"
| "recovery_result c = None"

text \<open>The guard of \<^verbatim>\<open>searchHeroes\<close>.\<close>

fun blank_search :: "call \<Rightarrow> bool" where
  "blank_search (SearchHeroes term) = (trim term = [])"
| "blank_search c = False"

text \<open>A callback that, when it does not throw, does nothing but log one message.\<close>

definition only_logs :: "('a \<Rightarrow> world \<Rightarrow> js_error + world) \<Rightarrow> bool" where
  "only_logs t = (\<forall>x w. case t x w of Inl e \<Rightarrow> True | Inr w1 \<Rightarrow> (\<exists>m. w1 = log m w))"

section \<open>Properties\<close>

subsection \<open>Each method is a pipe\<close>

lemma invoke_blank:
  "blank_search c \<Longrightarrow> invoke g c w = (rx_of (JArr []), w)"
  by (cases c) (simp_all add: searchHeroes_def)

lemma invoke_piped:
  "\<not> blank_search c \<Longrightarrow>
   invoke g c w =
     piped (projection_of c) (tap_of c) (recovery_operation c) (recovery_result c)
       (g (request_of c)) (w\<lparr>requests := requests w @ [request_of c]\<rparr>)"
proof (cases c)
  case GetHeroes
  then show ?thesis by (simp add: getHeroes_def piped_def watchQuery_def Let_def)
next
  case (GetHeroNo404 i)
  then show ?thesis by (simp add: getHeroNo404_def piped_def watchQuery_def Let_def)
next
  case (GetHero i)
  then show ?thesis by (simp add: getHero_def piped_def watchQuery_def Let_def)
next
  case (SearchHeroes s)
  assume "\<not> blank_search c"
  with SearchHeroes show ?thesis
    by (simp add: searchHeroes_def piped_def watchQuery_def Let_def)
next
  case (AddHero h)
  then show ?thesis by (simp add: addHero_def piped_def mutate_def Let_def)
next
  case (DeleteHero h)
  then show ?thesis by (simp add: deleteHero_def piped_def mutate_def Let_def)
next
  case (UpdateHero h)
  then show ?thesis by (simp add: updateHero_def piped_def mutate_def Let_def)
qed

lemma only_logs_tap_of: "only_logs (tap_of c)"
  by (cases c) (auto simp: only_logs_def Let_def split: sum.splits)


lemma trim_empty_iff: "trim s = [] \<longleftrightarrow> (\<forall>c\<in>set s. is_white_space c)"
proof
  assume "trim s = []"
  then have "\<forall>x\<in>set (dropWhile is_white_space s). is_white_space x"
    by (simp add: trim_def)
  then have "dropWhile is_white_space s = []"
    using hd_dropWhile [of is_white_space s] hd_in_set by blast
  then show "\<forall>c\<in>set s. is_white_space c"
    by simp
next
  assume "\<forall>c\<in>set s. is_white_space c"
  then show "trim s = []"
    by (auto simp: trim_def dest: set_dropWhileD)
qed

subsection \<open>Properties of \<^verbatim>\<open>map\<close>\<close>

lemma map_values_throws:
  "x \<in> set xs \<Longrightarrow> f x = Inl e \<Longrightarrow> \<exists>ys e'. map_values f xs = (ys, Some e')"
  by (induction xs) (auto split: sum.splits prod.splits)

lemma map_values_sound:
  "y \<in> set (fst (map_values f xs)) \<Longrightarrow> \<exists>x\<in>set xs. f x = Inr y"
  by (induction xs arbitrary: y) (auto split: sum.splits prod.splits)

lemma emitted_rx_map: "emitted (rx_map f src) = fst (map_values f (emitted src))"
  by (cases "map_values f (emitted src)") (auto simp: rx_map_def split: option.splits)

lemma rx_map_source_failed:
  "closing src = Errored e \<Longrightarrow> \<exists>e'. closing (rx_map f src) = Errored e'"
  by (cases "map_values f (emitted src)") (auto simp: rx_map_def split: option.splits)

lemma rx_map_throws:
  "x \<in> set (emitted src) \<Longrightarrow> f x = Inl e \<Longrightarrow> \<exists>e'. closing (rx_map f src) = Errored e'"
  using map_values_throws [of x "emitted src" f e] by (auto simp: rx_map_def)

subsection \<open>Properties of \<^verbatim>\<open>tap\<close>\<close>

lemma only_logsD:
  assumes "only_logs t" and "t x w = Inr w1"
  shows "\<exists>m. w1 = log m w"
proof -
  from assms(1) have "case t x w of Inl e \<Rightarrow> True | Inr w1 \<Rightarrow> (\<exists>m. w1 = log m w)"
    unfolding only_logs_def by (elim allE)
  with assms(2) show ?thesis by simp
qed

lemma tap_values_subset: "set (fst (fst (tap_values t xs w))) \<subseteq> set xs"
proof (induction xs arbitrary: w)
  case Nil
  then show ?case by simp
next
  case (Cons x xs)
  show ?case
  proof (cases "t x w")
    case (Inl e)
    then show ?thesis by simp
  next
    case (Inr w1)
    with Cons.IH [of w1] show ?thesis
      by (cases "tap_values t xs w1") auto
  qed
qed

lemma emitted_rx_tap: "emitted (fst (rx_tap t src w)) = fst (fst (tap_values t (emitted src) w))"
  by (cases "tap_values t (emitted src) w") (auto simp: rx_tap_def split: option.splits)

lemma snd_rx_tap: "snd (rx_tap t src w) = snd (tap_values t (emitted src) w)"
  by (cases "tap_values t (emitted src) w") (auto simp: rx_tap_def split: option.splits)

lemma rx_tap_source_failed:
  "closing src = Errored e \<Longrightarrow> \<exists>e'. closing (fst (rx_tap t src w)) = Errored e'"
  by (cases "tap_values t (emitted src) w") (auto simp: rx_tap_def split: option.splits)

lemma tap_values_Cons:
  assumes "t x w = Inr w1"
  shows "tap_values t (x # xs) w =
           ((x # fst (fst (tap_values t xs w1)), snd (fst (tap_values t xs w1))),
            snd (tap_values t xs w1))"
  using assms by (simp add: case_prod_beta)

lemma tap_values_requests:
  "only_logs t \<Longrightarrow> requests (snd (tap_values t xs w)) = requests w"
proof (induction xs arbitrary: w)
  case Nil
  then show ?case by simp
next
  case (Cons x xs)
  show ?case
  proof (cases "t x w")
    case (Inl e)
    then show ?thesis by simp
  next
    case (Inr w1)
    from only_logsD [OF Cons.prems Inr] obtain m where "w1 = log m w" ..
    then have "requests w1 = requests w"
      by (simp add: log_def messageService_add_def)
    with Cons.IH [OF Cons.prems, of w1] show ?thesis
      by (simp only: tap_values_Cons [of t x w w1 xs, OF Inr] snd_conv)
  qed
qed

lemma tap_values_messages:
  "only_logs t \<Longrightarrow>
   \<exists>new. messages (snd (tap_values t xs w)) = messages w @ new
         \<and> list_all (prefix ''HeroService: '') new"
proof (induction xs arbitrary: w)
  case Nil
  then show ?case by simp
next
  case (Cons x xs)
  show ?case
  proof (cases "t x w")
    case (Inl e)
    then show ?thesis by simp
  next
    case (Inr w1)
    from only_logsD [OF Cons.prems Inr] obtain m where "w1 = log m w" ..
    then have w1: "messages w1 = messages w @ [''HeroService: '' @ m]"
      by (simp add: log_def messageService_add_def)
    from Cons.IH [OF Cons.prems, of w1] obtain new where
      new: "messages (snd (tap_values t xs w1)) = messages w1 @ new"
        "list_all (prefix ''HeroService: '') new"
      by (elim exE conjE)
    have "messages (snd (tap_values t (x # xs) w)) = messages w @ ((''HeroService: '' @ m) # new)"
      using new(1) w1 by (simp only: tap_values_Cons [of t x w w1 xs, OF Inr] snd_conv append_assoc append_Cons append_Nil)
    moreover have "list_all (prefix ''HeroService: '') ((''HeroService: '' @ m) # new)"
      using new(2) by simp
    ultimately show ?thesis by (intro exI conjI)
  qed
qed

subsection \<open>Properties of \<^verbatim>\<open>catchError\<close> with \<^verbatim>\<open>handleError\<close>\<close>

lemma handleError_recovers:
  "closing src = Errored e \<Longrightarrow>
   fst (rx_catchError (handleError operation result) src w) =
     \<lparr>emitted = emitted src @ [case result of None \<Rightarrow> JUndefined | Some v \<Rightarrow> v],
      closing = Completed\<rparr>"
  by (simp add: rx_catchError_def handleError_def rx_of_def Let_def)

lemma handleError_passes:
  "\<forall>e. closing src \<noteq> Errored e \<Longrightarrow> rx_catchError (handleError operation result) src w = (src, w)"
  by (cases "closing src") (auto simp: rx_catchError_def)

lemma handleError_never_fails:
  "closing (fst (rx_catchError (handleError operation result) src w)) \<noteq> Errored e"
  by (cases "closing src") (auto simp: rx_catchError_def handleError_def rx_of_def Let_def)

lemma handleError_emitted:
  "set (emitted (fst (rx_catchError (handleError operation result) src w)))
     \<subseteq> insert (case result of None \<Rightarrow> JUndefined | Some v \<Rightarrow> v) (set (emitted src))"
  by (cases "closing src") (auto simp: rx_catchError_def handleError_def rx_of_def Let_def)

lemma handleError_requests:
  "requests (snd (rx_catchError (handleError operation result) src w)) = requests w"
  by (cases "closing src")
    (auto simp: rx_catchError_def handleError_def rx_of_def Let_def log_def messageService_add_def)

lemma handleError_messages:
  "\<exists>new. messages (snd (rx_catchError (handleError operation result) src w)) = messages w @ new
         \<and> list_all (prefix ''HeroService: '') new"
  by (cases "closing src")
    (auto simp: rx_catchError_def handleError_def rx_of_def Let_def log_def messageService_add_def)

subsection \<open>Properties of the whole pipe\<close>

lemma piped_unfold:
  "piped p t operation result src w =
     rx_catchError (handleError operation result)
       (fst (rx_tap t (rx_map p src) w)) (snd (rx_tap t (rx_map p src) w))"
  by (simp add: piped_def Let_def case_prod_beta)

lemma piped_never_fails:
  "closing (fst (piped p t operation result src w)) \<noteq> Errored e"
  by (simp add: piped_unfold handleError_never_fails)

lemma piped_recovers:
  assumes "(\<exists>e. closing src = Errored e) \<or> (\<exists>r e. r \<in> set (emitted src) \<and> p r = Inl e)"
  shows "\<exists>vs. fst (piped p t operation result src w) =
           \<lparr>emitted = vs @ [case result of None \<Rightarrow> JUndefined | Some v \<Rightarrow> v],
            closing = Completed\<rparr>"
proof -
  have "\<exists>e1. closing (rx_map p src) = Errored e1"
    using assms
  proof (elim disjE exE conjE)
    fix e assume "closing src = Errored e"
    then show ?thesis by (rule rx_map_source_failed)
  next
    fix r e assume "r \<in> set (emitted src)" and "p r = Inl e"
    then show ?thesis by (rule rx_map_throws [of r src p e])
  qed
  then obtain e1 where "closing (rx_map p src) = Errored e1" ..
  then have "\<exists>e2. closing (fst (rx_tap t (rx_map p src) w)) = Errored e2"
    by (rule rx_tap_source_failed)
  then obtain e2 where "closing (fst (rx_tap t (rx_map p src) w)) = Errored e2" ..
  then show ?thesis
    by (simp add: piped_unfold handleError_recovers)
qed

lemma piped_emitted:
  assumes "v \<in> set (emitted (fst (piped p t operation result src w)))"
  shows "v = (case result of None \<Rightarrow> JUndefined | Some v \<Rightarrow> v)
         \<or> (\<exists>r\<in>set (emitted src). p r = Inr v)"
proof (cases "v = (case result of None \<Rightarrow> JUndefined | Some v \<Rightarrow> v)")
  case True
  then show ?thesis by simp
next
  case False
  define tapped where "tapped = fst (rx_tap t (rx_map p src) w)"
  define w2 where "w2 = snd (rx_tap t (rx_map p src) w)"
  have "v \<in> set (emitted (fst (rx_catchError (handleError operation result) tapped w2)))"
    using assms by (simp add: piped_unfold tapped_def w2_def)
  with handleError_emitted [of operation result tapped w2] False
  have "v \<in> set (emitted tapped)"
    by auto
  then have "v \<in> set (fst (fst (tap_values t (emitted (rx_map p src)) w)))"
    by (simp add: tapped_def emitted_rx_tap)
  with tap_values_subset [of t "emitted (rx_map p src)" w]
  have "v \<in> set (fst (map_values p (emitted src)))"
    by (auto simp: emitted_rx_map)
  then have "\<exists>r\<in>set (emitted src). p r = Inr v"
    by (rule map_values_sound)
  then show ?thesis by simp
qed

lemma piped_requests:
  "only_logs t \<Longrightarrow> requests (snd (piped p t operation result src w)) = requests w"
  by (simp add: piped_unfold handleError_requests snd_rx_tap tap_values_requests)

lemma piped_messages:
  assumes "only_logs t"
  shows "\<exists>new. messages (snd (piped p t operation result src w)) = messages w @ new
               \<and> list_all (prefix ''HeroService: '') new"
proof -
  define tapped where "tapped = fst (rx_tap t (rx_map p src) w)"
  define w2 where "w2 = snd (rx_tap t (rx_map p src) w)"
  have "\<exists>new. messages w2 = messages w @ new \<and> list_all (prefix ''HeroService: '') new"
    unfolding w2_def snd_rx_tap by (rule tap_values_messages [OF assms])
  then obtain new1 where
    n1: "messages w2 = messages w @ new1" "list_all (prefix ''HeroService: '') new1"
    by (elim exE conjE)
  have "\<exists>new. messages (snd (rx_catchError (handleError operation result) tapped w2))
                 = messages w2 @ new \<and> list_all (prefix ''HeroService: '') new"
    by (rule handleError_messages)
  then obtain new2 where
    n2: "messages (snd (rx_catchError (handleError operation result) tapped w2))
           = messages w2 @ new2"
      "list_all (prefix ''HeroService: '') new2"
    by (elim exE conjE)
  have eq: "piped p t operation result src w
              = rx_catchError (handleError operation result) tapped w2"
    by (simp add: piped_unfold tapped_def w2_def)
  have "messages (snd (piped p t operation result src w)) = messages w @ (new1 @ new2)"
    using n1(1) n2(1) by (simp add: eq)
  moreover have "list_all (prefix ''HeroService: '') (new1 @ new2)"
    using n1(2) n2(2) by simp
  ultimately show ?thesis by (intro exI conjI)
qed

lemma recovery_result_default:
  "(case recovery_result c of None \<Rightarrow> JUndefined | Some v \<Rightarrow> v) = documented_default c"
  by (cases c) simp_all

subsection \<open>Properties of the wire shape\<close>

lemma wire_shapeD:
  assumes "wire_shape c r"
  shows "\<exists>v. data r = JObj [(field (document (request_of c)), v)] \<and> payload_shape c v"
proof (cases "data r")
  case (JObj kvs)
  show ?thesis
  proof (cases kvs)
    case Nil
    with JObj assms show ?thesis by (simp add: wire_shape_def)
  next
    case outer: (Cons kv rest)
    show ?thesis
    proof (cases rest)
      case Nil
      with outer JObj assms show ?thesis by (cases kv) (simp add: wire_shape_def)
    next
      case (Cons kv2 rest2)
      with outer JObj assms show ?thesis by (cases kv) (simp add: wire_shape_def)
    qed
  qed
qed (use assms in \<open>simp_all add: wire_shape_def\<close>)

lemma payload_exposed:
  "payload_shape c v \<Longrightarrow> exposed_shape c v"
  by (cases c) (simp_all add: payload_shape_def exposed_shape_def full_or_absent_def)

lemma default_exposed: "exposed_shape c (documented_default c)"
  by (cases c) (simp_all add: exposed_shape_def full_or_absent_def full_records_def)

lemma wire_shape_projection:
  assumes "wire_shape c r" and "projection_of c r = Inr v"
  shows "exposed_shape c v"
proof -
  from wire_shapeD [OF assms(1)] obtain v0 where
    d: "data r = JObj [(field (document (request_of c)), v0)]" and p: "payload_shape c v0"
    by (elim exE conjE)
  from d assms(2) have "v = v0"
    by (cases c)
      (simp_all add: heroesQuery_def heroQuery_def searchQuery_def addHero_gql_def
        deleteHero_gql_def updateHero_gql_def and_then_def)
  with p show ?thesis by (simp add: payload_exposed)
qed

section \<open>The claims of the specification\<close>

subsection \<open>Failures degrade to a default\<close>

text \<open>
  C1. For every operation, no error reaches the caller: the observable the operation
  returns never fails. When the call to the gateway fails, or the projection handed to
  \<^verbatim>\<open>map\<close> throws on an envelope the gateway emitted, the observable ends with the
  documented default of the operation (the empty sequence for \<^verbatim>\<open>getHeroes\<close> and
  \<^verbatim>\<open>searchHeroes\<close>, \<^verbatim>\<open>undefined\<close> for the others) and completes. A \<^verbatim>\<open>deleteHero\<close> whose
  gateway call fails for an id that does not exist is one instance.
\<close>

theorem failures_degrade_to_default:
  "(\<forall>e. closing (fst (invoke g c w)) \<noteq> Errored e) \<and>
   ((\<exists>e. closing (g (request_of c)) = Errored e)
      \<or> (\<exists>r e. r \<in> set (emitted (g (request_of c))) \<and> projection_of c r = Inl e)
    \<longrightarrow> (\<exists>vs. fst (invoke g c w) =
               \<lparr>emitted = vs @ [documented_default c], closing = Completed\<rparr>))"
proof (cases "blank_search c")
  case True
  then have inv: "invoke g c w = (rx_of (JArr []), w)"
    by (rule invoke_blank)
  from True have "documented_default c = JArr []"
    by (cases c) simp_all
  then have eq: "fst (invoke g c w) =
      \<lparr>emitted = [] @ [documented_default c], closing = Completed\<rparr>"
    by (simp add: inv rx_of_def)
  then have "\<forall>e. closing (fst (invoke g c w)) \<noteq> Errored e"
    by simp
  moreover from eq have "\<exists>vs. fst (invoke g c w) =
      \<lparr>emitted = vs @ [documented_default c], closing = Completed\<rparr>"
    by (rule exI)
  ultimately show ?thesis by simp
next
  case False
  note step = invoke_piped [OF False, of g w]
  have "\<forall>e. closing (fst (invoke g c w)) \<noteq> Errored e"
    unfolding step by (simp add: piped_never_fails)
  moreover have "\<exists>vs. fst (invoke g c w) =
      \<lparr>emitted = vs @ [documented_default c], closing = Completed\<rparr>"
    if "(\<exists>e. closing (g (request_of c)) = Errored e)
        \<or> (\<exists>r e. r \<in> set (emitted (g (request_of c))) \<and> projection_of c r = Inl e)"
    using piped_recovers [OF that, of "tap_of c" "recovery_operation c" "recovery_result c"
        "w\<lparr>requests := requests w @ [request_of c]\<rparr>"]
    unfolding step recovery_result_default .
  ultimately show ?thesis by simp
qed

theorem failures_degrade_to_default_witness:
  "closing (failing_gateway ''no such hero'' (request_of (DeleteHero (Inr 404))))
     = Errored (JsError ''no such hero'') \<and>
   fst (invoke (failing_gateway ''no such hero'') (DeleteHero (Inr 404)) fresh_world)
     = \<lparr>emitted = [JUndefined], closing = Completed\<rparr>"
proof -
  have failed: "closing (failing_gateway ''no such hero'' (request_of (DeleteHero (Inr 404))))
     = Errored (JsError ''no such hero'')"
    by (simp add: failing_gateway_def)
  have run: "fst (invoke (failing_gateway ''no such hero'') (DeleteHero (Inr 404)) fresh_world)
     = \<lparr>emitted = [JUndefined], closing = Completed\<rparr>"
    by code_simp
  from failures_degrade_to_default
    [of "failing_gateway ''no such hero''" "DeleteHero (Inr 404)" fresh_world] failed run
  show ?thesis by simp
qed

subsection \<open>The diagnostic of a failure\<close>

text \<open>
  C2. The specification has every failure record one message that contains the name of
  the operation that failed. \<^verbatim>\<open>updateHero\<close> hands the name \<^verbatim>\<open>addHero\<close> to
  \<^verbatim>\<open>handleError\<close>: when the gateway fails with the message \<^verbatim>\<open>boom\<close>, the one message an
  update of hero 11 records is \<^verbatim>\<open>HeroService: addHero failed: boom\<close>, in which
  \<^verbatim>\<open>updateHero\<close> does not occur.
\<close>

theorem updateHero_failure_is_logged_as_addHero:
  "messages (snd (updateHero (failing_gateway ''boom'') \<lparr>hero_id = 11, name = ''Mr. Nice''\<rparr>
      fresh_world)) = [''HeroService: addHero failed: boom'']
   \<and> \<not> sublist ''updateHero'' ''HeroService: addHero failed: boom''"
  by code_simp

subsection \<open>The guard of the search\<close>

text \<open>
  C3. A search for a term that is empty or holds only white space returns the empty
  sequence and leaves the world as it was: no request reaches the gateway, and no
  message is recorded.
\<close>

theorem blank_search_makes_no_call:
  assumes "list_all is_white_space term"
  shows "searchHeroes g term w = (rx_of (JArr []), w)"
  using assms by (simp add: searchHeroes_def trim_empty_iff list_all_iff)

theorem blank_search_makes_no_call_witness:
  "list_all is_white_space [CHR '' '', CHR 0x09, CHR '' ''] \<and>
   searchHeroes (failing_gateway ''unreachable'') [CHR '' '', CHR 0x09, CHR '' ''] fresh_world
     = (\<lparr>emitted = [JArr []], closing = Completed\<rparr>,
        \<lparr>messages = [], requests = [], console = []\<rparr>)"
proof -
  have h: "list_all is_white_space [CHR '' '', CHR 0x09, CHR '' '']"
    by (simp add: is_white_space_def)
  show ?thesis
    using h blank_search_makes_no_call [OF h, of "failing_gateway ''unreachable''" fresh_world]
    by (simp add: rx_of_def fresh_world_def)
qed

text \<open>
  C4. A search for a term with a character that is not white space hands the gateway one
  request: a watched \<^verbatim>\<open>searchQuery\<close> whose variable \<^verbatim>\<open>q\<close> is the term as it was given.
\<close>

theorem search_issues_one_query:
  assumes "\<not> list_all is_white_space term"
  shows "requests (snd (searchHeroes g term w)) =
           requests w @ [\<lparr>client_method = WatchQuery, document = searchQuery,
                           variables = Some [(''q'', JStr term)]\<rparr>]"
proof -
  from assms have "\<not> blank_search (SearchHeroes term)"
    by (simp add: trim_empty_iff list_all_iff)
  from invoke_piped [OF this, of g w] show ?thesis
    by (simp add: piped_requests only_logs_tap_of del: tap_of.simps projection_of.simps)
qed

theorem search_issues_one_query_witness:
  "\<not> list_all is_white_space '' a '' \<and>
   requests (snd (searchHeroes (answering JNull) '' a '' fresh_world)) =
     [\<lparr>client_method = WatchQuery, document = searchQuery, variables = Some [(''q'', JStr '' a '')]\<rparr>]"
proof -
  have h: "\<not> list_all is_white_space '' a ''"
    by (simp add: is_white_space_def)
  show ?thesis
    using h search_issues_one_query [OF h, of "answering JNull" fresh_world]
    by (simp add: fresh_world_def)
qed

subsection \<open>Reading one hero\<close>

text \<open>
  C5. When the gateway answers the request of \<^verbatim>\<open>getHero(i)\<close> with an envelope whose
  \<^verbatim>\<open>data.hero\<close> is a record with id \<open>i\<close>, and the call does not fail, \<^verbatim>\<open>getHero(i)\<close>
  gives the caller that record, whose id is \<open>i\<close>.
\<close>

theorem strict_get_returns_requested_hero:
  assumes "g (request_of (GetHero i)) = \<lparr>emitted = [r], closing = cl\<rparr>"
    and "\<forall>e. cl \<noteq> Errored e"
    and "get_prop (data r) ''hero'' = Inr h"
    and "get_prop h ''id'' = Inr (JNum i)"
  shows "fst (getHero g i w) = \<lparr>emitted = [h], closing = cl\<rparr>
         \<and> get_prop h ''id'' = Inr (JNum i)"
proof -
  have "rx_catchError (handleError operation result) \<lparr>emitted = [h], closing = cl\<rparr> w2
          = (\<lparr>emitted = [h], closing = cl\<rparr>, w2)" for operation result w2
    using assms(2) by (simp add: handleError_passes)
  then show ?thesis
    using assms(1,3,4)
    by (simp add: getHero_def watchQuery_def rx_map_def rx_tap_def Let_def)
qed

theorem strict_get_returns_requested_hero_witness:
  "answering (JObj [(''hero'', JObj [(''id'', JNum 11), (''name'', JStr ''Mr. Nice'')])])
      (request_of (GetHero 11))
     = \<lparr>emitted = [\<lparr>data = JObj [(''hero'', JObj [(''id'', JNum 11), (''name'', JStr ''Mr. Nice'')])]\<rparr>],
        closing = Completed\<rparr>
   \<and> fst (getHero (answering (JObj [(''hero'', JObj [(''id'', JNum 11), (''name'', JStr ''Mr. Nice'')])]))
        11 fresh_world)
     = \<lparr>emitted = [JObj [(''id'', JNum 11), (''name'', JStr ''Mr. Nice'')]], closing = Completed\<rparr>
   \<and> get_prop (JObj [(''id'', JNum 11), (''name'', JStr ''Mr. Nice'')]) ''id'' = Inr (JNum 11)"
proof -
  let ?h = "JObj [(''id'', JNum 11), (''name'', JStr ''Mr. Nice'')]"
  let ?r = "\<lparr>data = JObj [(''hero'', ?h)]\<rparr>"
  have a: "answering (JObj [(''hero'', ?h)]) (request_of (GetHero 11))
             = \<lparr>emitted = [?r], closing = Completed\<rparr>"
    by (simp add: answering_def rx_of_def)
  have b: "\<forall>e. Completed \<noteq> Errored e" by simp
  have c: "get_prop (data ?r) ''hero'' = Inr ?h" by simp
  have d: "get_prop ?h ''id'' = Inr (JNum 11)" by simp
  from strict_get_returns_requested_hero
      [of "answering (JObj [(''hero'', ?h)])" 11 ?r Completed ?h fresh_world, OF a b c d] a
  show ?thesis by simp
qed

text \<open>
  C8. \<^verbatim>\<open>getHeroNo404\<close> reads \<^verbatim>\<open>data.heroes[0]\<close>. Whenever the first envelope of the
  gateway has an object as \<^verbatim>\<open>data\<close> with no field \<^verbatim>\<open>heroes\<close> (as every envelope of the
  shape of \<^verbatim>\<open>heroQuery\<close> has), the read throws, and the operation gives the caller
  \<^verbatim>\<open>undefined\<close> through \<^verbatim>\<open>handleError\<close>, which records the failure. The request it hands
  to the gateway binds no variables, although \<^verbatim>\<open>heroQuery\<close> declares \<^verbatim>\<open>$id: Int!\<close>.
\<close>

theorem lenient_get_always_recovers:
  assumes "g (request_of (GetHeroNo404 i)) = \<lparr>emitted = r # rs, closing = cl\<rparr>"
    and "data r = JObj kvs"
    and "map_of kvs ''heroes'' = None"
  shows "fst (getHeroNo404 g i w) = \<lparr>emitted = [JUndefined], closing = Completed\<rparr>
       \<and> messages (snd (getHeroNo404 g i w))
           = messages w @ [''HeroService: getHero id='' @ string_of_int i @ '' failed: ''
                            @ message (type_error ''undefined'' ''0'')]
       \<and> requests (snd (getHeroNo404 g i w))
           = requests w @ [\<lparr>client_method = WatchQuery, document = heroQuery, variables = None\<rparr>]
       \<and> (''id'', ''Int!'') \<in> set (variable_definitions heroQuery)"
  using assms
  by (simp add: getHeroNo404_def watchQuery_def rx_map_def rx_tap_def rx_catchError_def
      handleError_def log_def messageService_add_def rx_of_def and_then_def heroQuery_def Let_def)

theorem lenient_get_always_recovers_witness:
  "answering (JObj [(''hero'', JObj [(''id'', JNum 11), (''name'', JStr ''Mr. Nice'')])])
      (request_of (GetHeroNo404 11))
     = \<lparr>emitted = [\<lparr>data = JObj [(''hero'', JObj [(''id'', JNum 11), (''name'', JStr ''Mr. Nice'')])]\<rparr>],
        closing = Completed\<rparr>
   \<and> map_of [(''hero'', JObj [(''id'', JNum 11), (''name'', JStr ''Mr. Nice'')])] ''heroes'' = None
   \<and> fst (getHeroNo404 (answering (JObj [(''hero'', JObj [(''id'', JNum 11), (''name'', JStr ''Mr. Nice'')])]))
        11 fresh_world)
     = \<lparr>emitted = [JUndefined], closing = Completed\<rparr>"
proof -
  let ?kvs = "[(''hero'', JObj [(''id'', JNum 11), (''name'', JStr ''Mr. Nice'')])]"
  let ?r = "\<lparr>data = JObj ?kvs\<rparr>"
  have a: "answering (JObj ?kvs) (request_of (GetHeroNo404 11))
             = \<lparr>emitted = ?r # [], closing = Completed\<rparr>"
    by (simp add: answering_def rx_of_def)
  have b: "data ?r = JObj ?kvs" by simp
  have c: "map_of ?kvs ''heroes'' = None" by simp
  from lenient_get_always_recovers
      [of "answering (JObj ?kvs)" 11 ?r "[]" Completed ?kvs fresh_world, OF a b c] a c
  show ?thesis by simp
qed

subsection \<open>Writing one hero\<close>

text \<open>
  C6. Take any gateway whose \<^verbatim>\<open>updateHero\<close> mutation echoes: to a \<^verbatim>\<open>mutate\<close> of the document
  \<^verbatim>\<open>updateHero\<close> with the variables \<^verbatim>\<open>{id: i, input: {name: n}}\<close> it answers once with
  \<^verbatim>\<open>{ updateHero: {id: i, name: n} }\<close> and completes. With such a gateway \<^verbatim>\<open>updateHero(h)\<close>
  gives the caller, once, a record equal to \<open>h\<close> and completes; it hands the gateway that
  one mutation with the id and the name of \<open>h\<close>, and records the one message of its
  success.
\<close>

theorem update_round_trip:
  assumes "\<forall>i n.
      g \<lparr>client_method = Mutate, document = updateHero_gql,
         variables = Some [(''id'', JNum i), (''input'', JObj [(''name'', JStr n)])]\<rparr>
        = rx_of \<lparr>data = JObj [(''updateHero'', JObj [(''id'', JNum i), (''name'', JStr n)])]\<rparr>"
  shows "updateHero g h w =
           (rx_of (js_of_hero h),
            w\<lparr>requests := requests w @
                   [\<lparr>client_method = Mutate, document = updateHero_gql,
                     variables = Some [(''id'', JNum (hero_id h)),
                                       (''input'', JObj [(''name'', JStr (name h))])]\<rparr>],
               messages := messages w @
                   [''HeroService: updated hero id='' @ string_of_int (hero_id h)]\<rparr>)"
proof -
  from assms have answer:
    "g \<lparr>client_method = Mutate, document = updateHero_gql,
        variables = Some [(''id'', JNum (hero_id h)),
                          (''input'', JObj [(''name'', JStr (name h))])]\<rparr>
       = rx_of \<lparr>data = JObj [(''updateHero'', js_of_hero h)]\<rparr>"
    by (simp add: js_of_hero_def)
  show ?thesis
    by (simp add: updateHero_def mutate_def answer rx_of_def rx_map_def rx_tap_def
        rx_catchError_def log_def messageService_add_def Let_def)
qed

theorem update_round_trip_witness:
  "(\<forall>i n.
      echo_updateHero \<lparr>client_method = Mutate, document = updateHero_gql,
         variables = Some [(''id'', JNum i), (''input'', JObj [(''name'', JStr n)])]\<rparr>
        = rx_of \<lparr>data = JObj [(''updateHero'', JObj [(''id'', JNum i), (''name'', JStr n)])]\<rparr>)
   \<and> updateHero echo_updateHero \<lparr>hero_id = 11, name = ''Mr. Nice''\<rparr> fresh_world
     = (\<lparr>emitted = [JObj [(''id'', JNum 11), (''name'', JStr ''Mr. Nice'')]],
         closing = Completed\<rparr>,
        \<lparr>messages = [''HeroService: updated hero id=11''],
         requests = [\<lparr>client_method = Mutate, document = updateHero_gql,
                      variables = Some [(''id'', JNum 11),
                                        (''input'', JObj [(''name'', JStr ''Mr. Nice'')])]\<rparr>],
         console = []\<rparr>)"
proof -
  have echoes: "\<forall>i n.
      echo_updateHero \<lparr>client_method = Mutate, document = updateHero_gql,
         variables = Some [(''id'', JNum i), (''input'', JObj [(''name'', JStr n)])]\<rparr>
        = rx_of \<lparr>data = JObj [(''updateHero'', JObj [(''id'', JNum i), (''name'', JStr n)])]\<rparr>"
    by (simp add: echo_updateHero_def answering_def)
  have eleven: "string_of_int 11 = ''11''"
    by code_simp
  from update_round_trip [of echo_updateHero "\<lparr>hero_id = 11, name = ''Mr. Nice''\<rparr>" fresh_world,
      OF echoes] echoes eleven
  show ?thesis
    by (simp add: rx_of_def js_of_hero_def fresh_world_def)
qed

text \<open>
  C9. \<^verbatim>\<open>deleteHero(h)\<close> and \<^verbatim>\<open>deleteHero(h.id)\<close> hand the same request to the gateway,
  and with the same gateway they have the same result and the same effects.
\<close>

theorem delete_forms_agree:
  "deleteHero g (Inl h) w = deleteHero g (Inr (hero_id h)) w
   \<and> request_of (DeleteHero (Inl h)) = request_of (DeleteHero (Inr (hero_id h)))"
  by (simp add: deleteHero_def)

theorem delete_forms_agree_witness:
  "deleteHero (answering (JObj [(''deleteHero'', JBool True)]))
      (Inl \<lparr>hero_id = 11, name = ''Mr. Nice''\<rparr>) fresh_world
     = deleteHero (answering (JObj [(''deleteHero'', JBool True)])) (Inr 11) fresh_world
   \<and> requests (snd (deleteHero (answering (JObj [(''deleteHero'', JBool True)]))
        (Inl \<lparr>hero_id = 11, name = ''Mr. Nice''\<rparr>) fresh_world))
     = [\<lparr>client_method = Mutate, document = deleteHero_gql, variables = Some [(''id'', JNum 11)]\<rparr>]"
proof -
  have "requests (snd (deleteHero (answering (JObj [(''deleteHero'', JBool True)]))
        (Inl \<lparr>hero_id = 11, name = ''Mr. Nice''\<rparr>) fresh_world))
     = [\<lparr>client_method = Mutate, document = deleteHero_gql, variables = Some [(''id'', JNum 11)]\<rparr>]"
    by code_simp
  with delete_forms_agree [of "answering (JObj [(''deleteHero'', JBool True)])"
      "\<lparr>hero_id = 11, name = ''Mr. Nice''\<rparr>" fresh_world]
  show ?thesis by simp
qed

subsection \<open>What a caller can see\<close>

text \<open>
  C7, as the specification states it, fails: the service hands on what the gateway
  sent. A deletion that the server acknowledges with \<^verbatim>\<open>true\<close> gives the caller \<^verbatim>\<open>true\<close>,
  which is neither a full record nor \<^verbatim>\<open>undefined\<close>; and a gateway that sends a record
  without a name makes \<^verbatim>\<open>getHero\<close> give the caller that partial record.
\<close>

theorem results_outside_the_invariant:
  "wire_shape (DeleteHero (Inr 11)) \<lparr>data = JObj [(''deleteHero'', JBool True)]\<rparr>
   \<and> emitted (fst (deleteHero (answering (JObj [(''deleteHero'', JBool True)])) (Inr 11) fresh_world))
       = [JBool True]
   \<and> \<not> full_or_absent (JBool True)
   \<and> emitted (fst (getHero (answering (JObj [(''hero'', JObj [(''id'', JNum 11)])])) 11 fresh_world))
       = [JObj [(''id'', JNum 11)]]
   \<and> \<not> full_or_absent (JObj [(''id'', JNum 11)])"
  by code_simp

text \<open>
  C7, amended. When every envelope of the gateway has the wire shape of the operation,
  every value an operation other than \<^verbatim>\<open>deleteHero\<close> gives its caller is a full record,
  a sequence of full records or \<^verbatim>\<open>undefined\<close>, and every value \<^verbatim>\<open>deleteHero\<close> gives its
  caller is the acknowledgement of the server (a boolean or a number) or \<^verbatim>\<open>undefined\<close>.
\<close>

theorem wire_shaped_results:
  assumes "list_all (wire_shape c) (emitted (g (request_of c)))"
  shows "list_all (exposed_shape c) (emitted (fst (invoke g c w)))"
proof (cases "blank_search c")
  case True
  then have "documented_default c = JArr []"
    by (cases c) simp_all
  with default_exposed [of c] True show ?thesis
    by (simp add: invoke_blank rx_of_def)
next
  case False
  show ?thesis
    unfolding list_all_iff
  proof
    fix v assume "v \<in> set (emitted (fst (invoke g c w)))"
    then have "v \<in> set (emitted (fst (piped (projection_of c) (tap_of c) (recovery_operation c)
        (recovery_result c) (g (request_of c)) (w\<lparr>requests := requests w @ [request_of c]\<rparr>))))"
      by (simp only: invoke_piped [OF False, of g w])
    then have "v = documented_default c
        \<or> (\<exists>r\<in>set (emitted (g (request_of c))). projection_of c r = Inr v)"
      unfolding recovery_result_default [symmetric] by (rule piped_emitted)
    then show "exposed_shape c v"
    proof
      assume "v = documented_default c"
      then show ?thesis by (simp add: default_exposed)
    next
      assume "\<exists>r\<in>set (emitted (g (request_of c))). projection_of c r = Inr v"
      then obtain r where "r \<in> set (emitted (g (request_of c)))" and pr: "projection_of c r = Inr v"
        by (elim bexE)
      with assms have "wire_shape c r"
        by (simp add: list_all_iff)
      then show ?thesis using pr by (rule wire_shape_projection)
    qed
  qed
qed

theorem wire_shaped_results_witness:
  "list_all (wire_shape (GetHero 11))
     (emitted (answering (JObj [(''hero'', JObj [(''id'', JNum 11), (''name'', JStr ''Mr. Nice'')])])
        (request_of (GetHero 11))))
   \<and> emitted (fst (invoke
        (answering (JObj [(''hero'', JObj [(''id'', JNum 11), (''name'', JStr ''Mr. Nice'')])]))
        (GetHero 11) fresh_world))
     = [JObj [(''id'', JNum 11), (''name'', JStr ''Mr. Nice'')]]
   \<and> exposed_shape (GetHero 11) (JObj [(''id'', JNum 11), (''name'', JStr ''Mr. Nice'')])"
proof -
  let ?g = "answering (JObj [(''hero'', JObj [(''id'', JNum 11), (''name'', JStr ''Mr. Nice'')])])"
  have a: "list_all (wire_shape (GetHero 11)) (emitted (?g (request_of (GetHero 11))))"
    by code_simp
  have b: "emitted (fst (invoke ?g (GetHero 11) fresh_world))
     = [JObj [(''id'', JNum 11), (''name'', JStr ''Mr. Nice'')]]"
    by code_simp
  from wire_shaped_results [of "GetHero 11" ?g fresh_world, OF a] a b
  show ?thesis by simp
qed

subsection \<open>The prefix of the messages\<close>

text \<open>
  C10. Every message an operation records, on success and on failure, starts with
  \<^verbatim>\<open>HeroService: \<close>; the messages recorded before the call stay as they were.
\<close>

theorem every_message_is_prefixed:
  "\<exists>new. messages (snd (invoke g c w)) = messages w @ new
         \<and> list_all (prefix ''HeroService: '') new"
proof (cases "blank_search c")
  case True
  then have "messages (snd (invoke g c w)) = messages w @ []"
    by (simp add: invoke_blank)
  moreover have "list_all (prefix ''HeroService: '') []"
    by simp
  ultimately show ?thesis by (intro exI conjI)
next
  case False
  have "\<exists>new. messages (snd (piped (projection_of c) (tap_of c) (recovery_operation c)
            (recovery_result c) (g (request_of c)) (w\<lparr>requests := requests w @ [request_of c]\<rparr>)))
          = messages (w\<lparr>requests := requests w @ [request_of c]\<rparr>) @ new
        \<and> list_all (prefix ''HeroService: '') new"
    by (rule piped_messages [OF only_logs_tap_of])
  then show ?thesis
    unfolding invoke_piped [OF False, of g w] by simp
qed

theorem every_message_is_prefixed_witness:
  "messages (snd (invoke (answering (JObj [(''hero'', JNull)])) (GetHero 7) fresh_world))
     = [''HeroService: did not find hero id=7'']
   \<and> messages (snd (invoke (failing_gateway ''boom'') GetHeroes fresh_world))
     = [''HeroService: getHeroes failed: boom'']
   \<and> prefix ''HeroService: '' ''HeroService: did not find hero id=7''
   \<and> prefix ''HeroService: '' ''HeroService: getHeroes failed: boom''"
proof -
  have a: "messages (snd (invoke (answering (JObj [(''hero'', JNull)])) (GetHero 7) fresh_world))
     = [''HeroService: did not find hero id=7'']"
    by code_simp
  have b: "messages (snd (invoke (failing_gateway ''boom'') GetHeroes fresh_world))
     = [''HeroService: getHeroes failed: boom'']"
    by code_simp
  from every_message_is_prefixed [of "answering (JObj [(''hero'', JNull)])" "GetHero 7" fresh_world]
    a b
  show ?thesis by simp
qed

end
